theory Spec2Isabelle
  imports Complex_Main
begin

text \<open>
  The tile compositing and coordinate projection of the Aeronir server: the functions
  \<open>latLngToTile\<close>, \<open>latLngToGlobalPixel\<close>, \<open>getTilesForBounds\<close>, \<open>downloadTile\<close>,
  \<open>createCompositeImage\<close> and \<open>calculateYoloForComposite\<close> and the handler of
  \<open>POST /api/boxes\<close>. The server without authentication and the server with
  authentication define these functions alike.
\<close>

section \<open>Numbers\<close>

text \<open>
  The program computes with JavaScript numbers. The embedding reads every finite number
  as the real (or integer) it denotes: arithmetic is exact, without rounding, overflow
  or signed zero, and \<open>Math.tan\<close>, \<open>Math.asinh\<close> and \<open>Math.PI\<close> are the real functions
  and the real number. Tile indices, grid sizes and the tile size are integers, the
  zoom level is a natural number (so that \<open>Math.pow(2, zoom)\<close> is a power of two),
  geographic degrees and pixel positions are reals. The counters of the resolver's
  loops are the exception: they are incremented as doubles are, since an increment
  that is lost to rounding keeps a loop from ending.

  The only division whose divisor is not a constant is the normalisation of the
  annotation by the composite's width and height. Its result is kept as a
  JavaScript number with the three non-finite values, since \<open>0 / 0\<close> is \<open>NaN\<close> in
  the program while it is \<open>0\<close> in HOL.
\<close>

datatype jsnum = Finite real | PosInf | NegInf | NaN

text \<open>
  \<open>a / b\<close> for finite \<open>a\<close> and \<open>b\<close>. A zero divisor is read as \<open>+0\<close>, which the
  product of a grid size and a tile size is unless one of the two is negative.
\<close>

definition js_div :: "real \<Rightarrow> real \<Rightarrow> jsnum" where
  "js_div a b =
     (if b \<noteq> 0 then Finite (a / b)
      else if a = 0 then NaN
      else if 0 < a then PosInf else NegInf)"

text \<open>\<open>Math.min(c, v)\<close> and \<open>Math.max(c, v)\<close> for a finite \<open>c\<close>: \<open>NaN\<close> if \<open>v\<close> is.\<close>

fun js_min :: "real \<Rightarrow> jsnum \<Rightarrow> jsnum" where
  "js_min c (Finite v) = Finite (min c v)"
| "js_min c PosInf = Finite c"
| "js_min c NegInf = NegInf"
| "js_min c NaN = NaN"

fun js_max :: "real \<Rightarrow> jsnum \<Rightarrow> jsnum" where
  "js_max c (Finite v) = Finite (max c v)"
| "js_max c PosInf = PosInf"
| "js_max c NegInf = Finite c"
| "js_max c NaN = NaN"

text \<open>Membership in the closed unit interval; no non-finite value is a member.\<close>

fun in_unit_interval :: "jsnum \<Rightarrow> bool" where
  "in_unit_interval (Finite v) = (0 \<le> v \<and> v \<le> 1)"
| "in_unit_interval PosInf = False"
| "in_unit_interval NegInf = False"
| "in_unit_interval NaN = False"

text \<open>
  \<open>v++\<close> for an integer-valued double \<open>v\<close>: the double nearest to \<open>v + 1\<close>, a tie
  going to the even significand. Up to \<open>2 ^ 53\<close> in magnitude the sum is exact. From
  \<open>2 ^ 53\<close> to \<open>2 ^ 54\<close> the doubles are the even integers and \<open>v + 1\<close> is a tie
  between \<open>v\<close> and \<open>v + 2\<close>. Beyond, \<open>v\<close> itself is the nearest double.
\<close>

definition js_increment :: "int \<Rightarrow> int" where
  "js_increment v =
     (if - (2 ^ 53) \<le> v \<and> v < 2 ^ 53 then v + 1
      else if \<bar>v\<bar> < 2 ^ 54 then (if even (\<bar>v\<bar> div 2) then v else v + 2)
      else v)"

section \<open>Data model\<close>

record bounds =
  south :: real
  west :: real
  north :: real
  east :: real

record tile =
  tile_x :: int
  tile_y :: int
  tile_z :: nat

record tile_grid =
  tiles :: "tile list"
  gridWidth :: int
  gridHeight :: int
  minX :: int
  minY :: int
  maxX :: int
  maxY :: int

record global_pixel =
  globalX :: real
  globalY :: real

section \<open>Coordinate transform\<close>

definition latLngToTile :: "real \<Rightarrow> real \<Rightarrow> nat \<Rightarrow> tile" where
  "latLngToTile lat lng zoom =
     (let n = 2 ^ zoom;
          x = \<lfloor>(lng + 180) / 360 * n\<rfloor>;
          latRad = lat * pi / 180;
          y = \<lfloor>(1 - arsinh (tan latRad) / pi) / 2 * n\<rfloor>
      in \<lparr>tile_x = x, tile_y = y, tile_z = zoom\<rparr>)"

definition latLngToGlobalPixel :: "real \<Rightarrow> real \<Rightarrow> nat \<Rightarrow> int \<Rightarrow> global_pixel" where
  "latLngToGlobalPixel lat lng zoom tileSize =
     (let n = 2 ^ zoom;
          gx = (lng + 180) / 360 * n * real_of_int tileSize;
          latRad = lat * pi / 180;
          gy = (1 - arsinh (tan latRad) / pi) / 2 * n * real_of_int tileSize
      in \<lparr>globalX = gx, globalY = gy\<rparr>)"

text \<open>
  The latitudes at which \<open>tan (lat * pi / 180)\<close> is defined. The range contains the
  Mercator-safe range of about 85.05 degrees north and south.
\<close>

definition valid_latitude :: "real \<Rightarrow> bool" where
  "valid_latitude lat = (- 90 < lat \<and> lat < 90)"





section \<open>Tile grid resolver\<close>

text \<open>
  The two loops may not end: a counter that has reached \<open>2 ^ 53\<close> is not changed by
  its increment. A loop that does not end has the value \<open>None\<close>, and so has the
  resolver, which then never returns a grid.
\<close>

text \<open>The inner loop \<open>for (let y = minY; y <= maxY; y++) tiles.push({x, y, z: zoom})\<close>.\<close>

partial_function (option)
  tiles_column :: "int \<Rightarrow> int \<Rightarrow> int \<Rightarrow> nat \<Rightarrow> tile list \<Rightarrow> tile list option" where
  "tiles_column x y hiY zoom acc =
     (if y \<le> hiY
      then tiles_column x (js_increment y) hiY zoom
             (acc @ [\<lparr>tile_x = x, tile_y = y, tile_z = zoom\<rparr>])
      else Some acc)"

text \<open>The outer loop \<open>for (let x = minX; x <= maxX; x++)\<close>, which starts each column at \<open>minY\<close>.\<close>

partial_function (option)
  tiles_loop :: "int \<Rightarrow> int \<Rightarrow> int \<Rightarrow> int \<Rightarrow> nat \<Rightarrow> tile list \<Rightarrow> tile list option" where
  "tiles_loop x hiX loY hiY zoom acc =
     (if x \<le> hiX
      then Option.bind (tiles_column x loY hiY zoom acc)
             (tiles_loop (js_increment x) hiX loY hiY zoom)
      else Some acc)"

text \<open>
  The locals \<open>minX\<close>, \<open>maxX\<close>, \<open>minY\<close> and \<open>maxY\<close> of the source are \<open>loX\<close>, \<open>hiX\<close>,
  \<open>loY\<close> and \<open>hiY\<close> here; the names of the source are the fields of the grid.
\<close>

definition getTilesForBounds :: "bounds \<Rightarrow> nat \<Rightarrow> tile_grid option" where
  "getTilesForBounds b zoom =
     (let swTile = latLngToTile (south b) (west b) zoom;
          neTile = latLngToTile (north b) (east b) zoom;
          loX = min (tile_x swTile) (tile_x neTile);
          hiX = max (tile_x swTile) (tile_x neTile);
          loY = min (tile_y swTile) (tile_y neTile);
          hiY = max (tile_y swTile) (tile_y neTile)
      in case tiles_loop loX hiX loY hiY zoom [] of
           None \<Rightarrow> None
         | Some ts \<Rightarrow>
             Some \<lparr>tiles = ts,
                   gridWidth = hiX - loX + 1,
                   gridHeight = hiY - loY + 1,
                   minX = loX, minY = loY, maxX = hiX, maxY = hiY\<rparr>)"

text \<open>The bounds with two of their values exchanged.\<close>

definition swap_south_north :: "bounds \<Rightarrow> bounds" where
  "swap_south_north b = b\<lparr>south := north b, north := south b\<rparr>"

definition swap_west_east :: "bounds \<Rightarrow> bounds" where
  "swap_west_east b = b\<lparr>west := east b, east := west b\<rparr>"

text \<open>The rectangle of tiles, one column after the other, each from north to south.\<close>

definition rectangle_tiles :: "int \<Rightarrow> int \<Rightarrow> int \<Rightarrow> int \<Rightarrow> nat \<Rightarrow> tile list" where
  "rectangle_tiles loX hiX loY hiY zoom =
     concat (map (\<lambda>x. map (\<lambda>y. \<lparr>tile_x = x, tile_y = y, tile_z = zoom\<rparr>) [loY..hiY]) [loX..hiX])"

section \<open>Annotation projector\<close>

record pixel_rect =
  rect_x1 :: int
  rect_y1 :: int
  rect_x2 :: int
  rect_y2 :: int

record yolo =
  x_center :: jsnum
  y_center :: jsnum
  width :: jsnum
  height :: jsnum
  pixel :: pixel_rect

text \<open>\<open>Math.round\<close>: the nearest integer, a half rounded towards plus infinity.\<close>

definition js_round :: "real \<Rightarrow> int" where
  "js_round v = \<lfloor>v + 1 / 2\<rfloor>"

definition calculateYoloForComposite :: "bounds \<Rightarrow> tile_grid \<Rightarrow> nat \<Rightarrow> int \<Rightarrow> yolo" where
  "calculateYoloForComposite b tileGrid zoom tileSize =
     (let compositeWidth = gridWidth tileGrid * tileSize;
          compositeHeight = gridHeight tileGrid * tileSize;
          swPixel = latLngToGlobalPixel (south b) (west b) zoom tileSize;
          nePixel = latLngToGlobalPixel (north b) (east b) zoom tileSize;
          offsetX = minX tileGrid * tileSize;
          offsetY = minY tileGrid * tileSize;
          x1 = globalX swPixel - real_of_int offsetX;
          x2 = globalX nePixel - real_of_int offsetX;
          y1 = globalY nePixel - real_of_int offsetY;
          y2 = globalY swPixel - real_of_int offsetY;
          boxWidth = \<bar>x2 - x1\<bar>;
          boxHeight = \<bar>y2 - y1\<bar>;
          xCenter = js_div ((x1 + x2) / 2) (real_of_int compositeWidth);
          yCenter = js_div ((y1 + y2) / 2) (real_of_int compositeHeight)
      in \<lparr>x_center = js_max 0 (js_min 1 xCenter),
          y_center = js_max 0 (js_min 1 yCenter),
          width = js_max 0 (js_min 1 (js_div boxWidth (real_of_int compositeWidth))),
          height = js_max 0 (js_min 1 (js_div boxHeight (real_of_int compositeHeight))),
          pixel = \<lparr>rect_x1 = js_round x1, rect_y1 = js_round y1,
                   rect_x2 = js_round x2, rect_y2 = js_round y2\<rparr>\<rparr>)"

section \<open>Tile fetcher\<close>

text \<open>
  The network, the random number generator, the image library, the file system and
  the clock are the environment of the program: each call is answered by a function
  of the environment, so that every outcome the call can have is an input of the
  model. Log output is not modelled.
\<close>

type_synonym bytes = "nat list"

datatype js_error = Error string

record response =
  ok :: bool
  status :: nat
  arrayBuffer :: "js_error + bytes"

datatype fetch_outcome = FetchRejected js_error | FetchResolved response

record create_options =
  create_width :: int
  create_height :: int
  channels :: nat
  background :: "nat \<times> nat \<times> nat"

text \<open>
  A tile raster is either the body of a response, \<open>Buffer.from(arrayBuffer)\<close>, or the
  JPEG encoding of a blank image, \<open>sharp({create}).jpeg().toBuffer()\<close>, which is
  described by the options of its creation. The encoding of a blank image is taken
  to succeed.
\<close>

datatype tile_buffer = Downloaded bytes | SolidJpeg create_options

record composite_input =
  layer_input :: tile_buffer
  layer_left :: int
  layer_top :: int

text \<open>The buffer \<open>sharp({create}).composite(inputs).jpeg({quality}).toBuffer()\<close>.\<close>

record jpeg_composite =
  canvas :: create_options
  layers :: "composite_input list"
  quality :: nat

record environment =
  fetch :: "string \<Rightarrow> fetch_outcome"
  random :: "nat \<Rightarrow> real"
  sharp_rejects :: "create_options \<Rightarrow> composite_input list \<Rightarrow> js_error option"
  writeFile_rejects :: "string \<Rightarrow> js_error option"
  tiles_dir :: string
  dateNow :: nat
  isoDate :: string

definition DEFAULT_TILE_URL :: string where
  "DEFAULT_TILE_URL =
     ''https://tiles.maps.eox.at/wmts/1.0.0/s2cloudless_3857/default/GoogleMapsCompatible/{z}/{y}/{x}.jpg''"

text \<open>Decimal digits of an integer, as the conversion of a number to a string gives them.\<close>

fun show_nat :: "nat \<Rightarrow> string" where
  "show_nat n =
     (if n < 10 then [''0123456789'' ! n]
      else show_nat (n div 10) @ [''0123456789'' ! (n mod 10)])"

declare show_nat.simps [simp del]

definition show_int :: "int \<Rightarrow> string" where
  "show_int i = (if i < 0 then CHR ''-'' # show_nat (nat (- i)) else show_nat (nat i))"

text \<open>
  \<open>s.replace(pattern, replacement)\<close> for a string pattern: the first occurrence only.
  The replacements used here, digits and one letter, contain no \<open>$\<close>.
\<close>

fun replace_first :: "string \<Rightarrow> string \<Rightarrow> string \<Rightarrow> string" where
  "replace_first pat rep [] = (if pat = [] then rep else [])"
| "replace_first pat rep (c # cs) =
     (if take (length pat) (c # cs) = pat then rep @ drop (length pat) (c # cs)
      else c # replace_first pat rep cs)"

text \<open>\<open>['a', 'b', 'c'][Math.floor(r * 3)]\<close>, converted to a string by \<open>replace\<close>.\<close>

definition subdomain :: "real \<Rightarrow> string" where
  "subdomain r =
     (let i = \<lfloor>r * 3\<rfloor>
      in if i = 0 then ''a'' else if i = 1 then ''b'' else if i = 2 then ''c''
         else ''undefined'')"

text \<open>The URL of a tile; \<open>k\<close> numbers the calls of \<open>Math.random\<close>.\<close>

definition tile_url :: "environment \<Rightarrow> nat \<Rightarrow> nat \<Rightarrow> int \<Rightarrow> int \<Rightarrow> string \<Rightarrow> string" where
  "tile_url env k z x y tileUrlTemplate =
     replace_first ''{s}'' (subdomain (random env k))
       (replace_first ''{y}'' (show_int y)
         (replace_first ''{x}'' (show_int x)
           (replace_first ''{z}'' (show_nat z) tileUrlTemplate)))"

text \<open>The body of the \<open>try\<close> block: every \<open>throw\<close> and every rejection is a left value.\<close>

definition download_attempt :: "environment \<Rightarrow> string \<Rightarrow> js_error + tile_buffer" where
  "download_attempt env url =
     (case fetch env url of
        FetchRejected err \<Rightarrow> Inl err
      | FetchResolved r \<Rightarrow>
          if \<not> ok r then Inl (Error (''HTTP '' @ show_nat (status r)))
          else (case arrayBuffer r of
                  Inl err \<Rightarrow> Inl err
                | Inr body \<Rightarrow> Inr (Downloaded body)))"

definition placeholder_tile :: tile_buffer where
  "placeholder_tile =
     SolidJpeg \<lparr>create_width = 256, create_height = 256, channels = 3,
                background = (50, 50, 60)\<rparr>"

definition downloadTile :: "environment \<Rightarrow> nat \<Rightarrow> nat \<Rightarrow> int \<Rightarrow> int \<Rightarrow> string \<Rightarrow> tile_buffer" where
  "downloadTile env k z x y tileUrlTemplate =
     (case download_attempt env (tile_url env k z x y tileUrlTemplate) of
        Inr buffer \<Rightarrow> buffer
      | Inl err \<Rightarrow> placeholder_tile)"

text \<open>The response to a request failed: a network error or a status outside 2xx.\<close>

definition fetch_failed :: "environment \<Rightarrow> string \<Rightarrow> bool" where
  "fetch_failed env url =
     (case fetch env url of FetchRejected err \<Rightarrow> True | FetchResolved r \<Rightarrow> \<not> ok r)"

section \<open>Compositor\<close>

record composite_image =
  buffer :: jpeg_composite
  composite_width :: int
  composite_height :: int

text \<open>
  \<open>Promise.all(tiles.map(...))\<close>: one download for each tile, the results in the order
  of the tiles.
\<close>

definition tileBuffers :: "environment \<Rightarrow> tile list \<Rightarrow> string \<Rightarrow> (tile \<times> tile_buffer) list" where
  "tileBuffers env ts tileUrl =
     map (\<lambda>(k, t). (t, downloadTile env k (tile_z t) (tile_x t) (tile_y t) tileUrl))
       (enumerate 0 ts)"

definition compositeInputs :: "tile_grid \<Rightarrow> int \<Rightarrow> (tile \<times> tile_buffer) list \<Rightarrow> composite_input list" where
  "compositeInputs tileGrid tileSize tbs =
     map (\<lambda>(t, b). \<lparr>layer_input = b,
                     layer_left = (tile_x t - minX tileGrid) * tileSize,
                     layer_top = (tile_y t - minY tileGrid) * tileSize\<rparr>) tbs"

definition createCompositeImage ::
  "environment \<Rightarrow> tile_grid \<Rightarrow> int \<Rightarrow> string \<Rightarrow> js_error + composite_image" where
  "createCompositeImage env tileGrid tileSize tileUrl =
     (let compositeWidth = gridWidth tileGrid * tileSize;
          compositeHeight = gridHeight tileGrid * tileSize;
          inputs = compositeInputs tileGrid tileSize (tileBuffers env (tiles tileGrid) tileUrl);
          blank = \<lparr>create_width = compositeWidth, create_height = compositeHeight,
                   channels = 3, background = (0, 0, 0)\<rparr>
      in case sharp_rejects env blank inputs of
           Some err \<Rightarrow> Inl err
         | None \<Rightarrow>
             Inr \<lparr>buffer = \<lparr>canvas = blank, layers = inputs, quality = 90\<rparr>,
                  composite_width = compositeWidth,
                  composite_height = compositeHeight\<rparr>)"

section \<open>Box creation\<close>

text \<open>
  The handler of \<open>POST /api/boxes\<close>. The request body carries a label id, a label name,
  the bounds, a zoom level and a tile URL, each of which may be missing; the zoom
  level may also be \<open>null\<close>. The stored boxes and the saved image files are the state;
  reading and writing the database file is taken to succeed. The reply is the status
  400 with an error message, or the status 201 with the new box; there is no reply,
  the value \<open>None\<close>, when the resolver does not return. Of the image
  information the fields that the box uses are kept. The handler of the authenticated
  server differs in the user fields of the box and in the broadcast of the new box
  only.
\<close>

datatype zoom_field = ZoomAbsent | ZoomNull | ZoomNumber nat

record box_request =
  req_labelId :: "int option"
  req_labelName :: "string option"
  req_bounds :: "bounds option"
  req_zoom :: zoom_field
  req_tileUrl :: "string option"

record image_info =
  info_path :: string
  info_width :: int
  info_height :: int

record grid_summary =
  summary_width :: int
  summary_height :: int
  summary_minX :: int
  summary_minY :: int

record box =
  box_id :: int
  box_labelId :: int
  box_labelName :: string
  box_bounds :: bounds
  box_zoom :: nat
  box_tileUrl :: string
  box_tiles :: "tile list"
  box_tileGrid :: grid_summary
  box_image :: "string option"
  box_imageSize :: "(int \<times> int) option"
  box_yolo :: yolo
  box_createdAt :: string

record server_state =
  boxes :: "box list"
  saved_tiles :: "(string \<times> jpeg_composite) list"

datatype reply = BadRequest string | Created box

text \<open>\<open>zoom || 14\<close>: the default replaces every value that is not truthy.\<close>

fun zoomLevel :: "zoom_field \<Rightarrow> nat" where
  "zoomLevel ZoomAbsent = 14"
| "zoomLevel ZoomNull = 14"
| "zoomLevel (ZoomNumber k) = (if k = 0 then 14 else k)"

text \<open>\<open>tileUrl || DEFAULT_TILE_URL\<close>.\<close>

fun useTileUrl :: "string option \<Rightarrow> string" where
  "useTileUrl None = DEFAULT_TILE_URL"
| "useTileUrl (Some u) = (if u = [] then DEFAULT_TILE_URL else u)"

text \<open>\<open>boxes.length ? Math.max(...boxes.map(b => b.id)) + 1 : 1\<close>.\<close>

fun next_box_id :: "box list \<Rightarrow> int" where
  "next_box_id [] = 1"
| "next_box_id (b # bs) = fold max (map box_id bs) (box_id b) + 1"

text \<open>
  The \<open>try\<close> block with its \<open>catch\<close>: the image information and the saved file, or
  nothing if the composite or the write to the file failed.
\<close>

definition imageInfo ::
  "environment \<Rightarrow> int \<Rightarrow> tile_grid \<Rightarrow> int \<Rightarrow> string \<Rightarrow> (image_info \<times> string \<times> jpeg_composite) option" where
  "imageInfo env boxId tileGrid tileSize tileUrl =
     (case createCompositeImage env tileGrid tileSize tileUrl of
        Inl err \<Rightarrow> None
      | Inr composite \<Rightarrow>
          (let imageName = ''box_'' @ show_int boxId @ ''_'' @ show_nat (dateNow env) @ ''.jpg'';
               imagePath = tiles_dir env @ ''/'' @ imageName
           in case writeFile_rejects env imagePath of
                Some err \<Rightarrow> None
              | None \<Rightarrow>
                  Some (\<lparr>info_path = ''/saved_tiles/'' @ imageName,
                         info_width = composite_width composite,
                         info_height = composite_height composite\<rparr>,
                        imagePath, buffer composite)))"

definition post_boxes ::
  "environment \<Rightarrow> server_state \<Rightarrow> box_request \<Rightarrow> (reply \<times> server_state) option" where
  "post_boxes env st req =
     (case (req_labelId req, req_labelName req, req_bounds req) of
        (Some labelId, Some labelName, Some b) \<Rightarrow>
          if labelId = 0 \<or> labelName = [] then
            Some (BadRequest ''labelId, labelName und bounds sind erforderlich'', st)
          else
            (let zoomLevel = zoomLevel (req_zoom req);
                 tileSize = 256;
                 useTileUrl = useTileUrl (req_tileUrl req)
             in case getTilesForBounds b zoomLevel of
                  None \<Rightarrow> None
                | Some tileGrid \<Rightarrow>
                    (let boxId = next_box_id (boxes st);
                         info = imageInfo env boxId tileGrid tileSize useTileUrl;
                         yoloCoords = calculateYoloForComposite b tileGrid zoomLevel tileSize;
                         newBox = \<lparr>box_id = boxId,
                                    box_labelId = labelId,
                                    box_labelName = labelName,
                                    box_bounds = b,
                                    box_zoom = zoomLevel,
                                    box_tileUrl = useTileUrl,
                                    box_tiles = tiles tileGrid,
                                    box_tileGrid = \<lparr>summary_width = gridWidth tileGrid,
                                                     summary_height = gridHeight tileGrid,
                                                     summary_minX = minX tileGrid,
                                                     summary_minY = minY tileGrid\<rparr>,
                                    box_image = map_option (\<lambda>(i, p, f). info_path i) info,
                                    box_imageSize =
                                      map_option (\<lambda>(i, p, f). (info_width i, info_height i)) info,
                                    box_yolo = yoloCoords,
                                    box_createdAt = isoDate env\<rparr>
                     in Some (Created newBox,
                              \<lparr>boxes = boxes st @ [newBox],
                               saved_tiles =
                                 (case info of
                                    None \<Rightarrow> saved_tiles st
                                  | Some (i, p, f) \<Rightarrow> saved_tiles st @ [(p, f)])\<rparr>)))
      | _ \<Rightarrow> Some (BadRequest ''labelId, labelName und bounds sind erforderlich'', st))"

section \<open>Specification vocabulary and examples\<close>

text \<open>Clamping to the closed unit interval, \<open>Math.max(0, Math.min(1, v))\<close>.\<close>

definition clamp_unit :: "jsnum \<Rightarrow> jsnum" where
  "clamp_unit v = js_max 0 (js_min 1 v)"

text \<open>
  A box on the equator that straddles the edge between the tile columns 8647 and 8648
  at zoom level 14, and its tile grid.
\<close>

definition example_bounds :: bounds where
  "example_bounds = \<lparr>south = 0, west = 10, north = 0, east = 10.03\<rparr>"

definition example_grid :: tile_grid where
  "example_grid =
     \<lparr>tiles = [\<lparr>tile_x = 8647, tile_y = 8192, tile_z = 14\<rparr>,
               \<lparr>tile_x = 8648, tile_y = 8192, tile_z = 14\<rparr>],
      gridWidth = 2, gridHeight = 1,
      minX = 8647, minY = 8192, maxX = 8648, maxY = 8192\<rparr>"

text \<open>An environment without network: every request is refused.\<close>

definition offline :: environment where
  "offline =
     \<lparr>fetch = (\<lambda>url. FetchRejected (Error ''fetch failed'')),
      random = (\<lambda>k. 0),
      sharp_rejects = (\<lambda>blank inputs. None),
      writeFile_rejects = (\<lambda>path. None),
      tiles_dir = ''public/saved_tiles'',
      dateNow = 0,
      isoDate = ''1970-01-01T00:00:00.000Z''\<rparr>"

text \<open>An environment in which the image library rejects every composite.\<close>

definition broken_sharp :: environment where
  "broken_sharp =
     offline\<lparr>sharp_rejects := (\<lambda>blank inputs. Some (Error ''unsupported image format''))\<rparr>"

definition example_request :: "zoom_field \<Rightarrow> box_request" where
  "example_request z =
     \<lparr>req_labelId = Some 1, req_labelName = Some ''field'',
      req_bounds = Some example_bounds, req_zoom = z, req_tileUrl = None\<rparr>"

definition empty_state :: server_state where
  "empty_state = \<lparr>boxes = [], saved_tiles = []\<rparr>"


text \<open>
  The worked example of the specification, and the two notions its statement uses:
  tiles that are neighbours in the grid, and a pixel rectangle inside a square image.
\<close>

definition worked_example :: bounds where
  "worked_example = \<lparr>south = 50, west = 10, north = 50.01, east = 10.01\<rparr>"

definition adjacent_tiles :: "tile \<Rightarrow> tile \<Rightarrow> bool" where
  "adjacent_tiles s t =
     (s \<noteq> t \<and> \<bar>tile_x s - tile_x t\<bar> \<le> 1 \<and> \<bar>tile_y s - tile_y t\<bar> \<le> 1)"

definition rect_inside :: "pixel_rect \<Rightarrow> int \<Rightarrow> bool" where
  "rect_inside r n =
     (0 \<le> rect_x1 r \<and> rect_x1 r < n \<and> 0 \<le> rect_x2 r \<and> rect_x2 r < n \<and>
      0 \<le> rect_y1 r \<and> rect_y1 r < n \<and> 0 \<le> rect_y2 r \<and> rect_y2 r < n)"

section \<open>Taylor polynomials\<close>

text \<open>
  The partial sums of the series of sine, cosine and the exponential function, by
  which the tile rows of the worked example are computed.
\<close>

definition sin_taylor :: "real \<Rightarrow> real" where
  "sin_taylor x = x - x^3 / 6 + x^5 / 120 - x^7 / 5040 + x^9 / 362880"

definition cos_taylor :: "real \<Rightarrow> real" where
  "cos_taylor x = 1 - x^2 / 2 + x^4 / 24 - x^6 / 720 + x^8 / 40320"

definition exp_taylor :: "real \<Rightarrow> real" where
  "exp_taylor x = 1 + x + x^2 / 2 + x^3 / 6 + x^4 / 24 + x^5 / 120 + x^6 / 720 + x^7 / 5040
      + x^8 / 40320 + x^9 / 362880 + x^10 / 3628800 + x^11 / 39916800"

section \<open>Bounds of the transcendental functions\<close>

lemma sin_poly: "(\<Sum>m<11. sin_coeff m * x ^ m) =
    x - x^3 / 6 + x^5 / 120 - x^7 / 5040 + x^9 / 362880" for x :: real
  by (simp add: sin_coeff_def lessThan_nat_numeral lessThan_Suc fact_numeral)

lemma cos_poly: "(\<Sum>m<10. cos_coeff m * x ^ m) =
    1 - x^2 / 2 + x^4 / 24 - x^6 / 720 + x^8 / 40320" for x :: real
  by (simp add: cos_coeff_def lessThan_nat_numeral lessThan_Suc fact_numeral)

lemma exp_poly: "(\<Sum>m<12. x ^ m / fact m) =
    1 + x + x^2 / 2 + x^3 / 6 + x^4 / 24 + x^5 / 120 + x^6 / 720 + x^7 / 5040 + x^8 / 40320
      + x^9 / 362880 + x^10 / 3628800 + x^11 / 39916800" for x :: real
  by (simp add: lessThan_nat_numeral lessThan_Suc fact_numeral)

lemma sin_taylor_bounds:
  assumes "0 \<le> x"
  shows "sin_taylor x - x^11 / 39916800 \<le> sin x" and "sin x \<le> sin_taylor x + x^11 / 39916800"
proof -
  have "\<bar>sin x - sin_taylor x\<bar> \<le> inverse (fact 11) * \<bar>x\<bar> ^ 11"
    using Maclaurin_sin_bound [of x 11] by (simp only: sin_poly sin_taylor_def)
  with assms have "\<bar>sin x - sin_taylor x\<bar> \<le> x ^ 11 / 39916800"
    by (simp add: fact_numeral)
  then show "sin_taylor x - x^11 / 39916800 \<le> sin x" and "sin x \<le> sin_taylor x + x^11 / 39916800"
    by linarith+
qed

lemma cos_taylor_bounds:
  assumes "0 \<le> x"
  shows "cos_taylor x - x^10 / 3628800 \<le> cos x" and "cos x \<le> cos_taylor x + x^10 / 3628800"
proof -
  define r where "r = x ^ 10 / 3628800"
  obtain t where "cos x = (\<Sum>m<10. cos_coeff m * x ^ m) + (cos (t + 1/2 * real 10 * pi) / fact 10) * x ^ 10"
    using Maclaurin_cos_expansion [of x 10] by blast
  then have eq: "cos x - cos_taylor x = cos (t + 1/2 * real 10 * pi) * r"
    by (simp add: cos_poly cos_taylor_def fact_numeral r_def)
  have r: "0 \<le> r"
    using assms by (simp add: r_def)
  have "\<bar>cos (t + 1/2 * real 10 * pi) * r\<bar> \<le> 1 * r"
    unfolding abs_mult using r by (intro mult_mono) simp_all
  with eq have "\<bar>cos x - cos_taylor x\<bar> \<le> r"
    by (simp del: of_nat_numeral)
  then show "cos_taylor x - x^10 / 3628800 \<le> cos x" and "cos x \<le> cos_taylor x + x^10 / 3628800"
    unfolding r_def by linarith+
qed

lemma exp_taylor_remainder:
  "\<exists>t. \<bar>t\<bar> \<le> \<bar>x\<bar> \<and> exp x = exp_taylor x + exp t * (x ^ 12 / 479001600)"
proof -
  obtain t where "\<bar>t\<bar> \<le> \<bar>x\<bar>"
    and "exp x = (\<Sum>m<12. x ^ m / fact m) + (exp t / fact 12) * x ^ 12"
    using Maclaurin_exp_le [of x 12] by blast
  then show ?thesis
    by (auto simp: exp_poly exp_taylor_def fact_numeral)
qed

lemma exp_taylor_lower:
  assumes "0 \<le> x"
  shows "exp_taylor x \<le> exp x"
proof -
  obtain t where "exp x = exp_taylor x + exp t * (x ^ 12 / 479001600)"
    using exp_taylor_remainder [of x] by blast
  moreover have "0 \<le> exp t * (x ^ 12 / 479001600)"
    using assms by simp
  ultimately show ?thesis
    by linarith
qed

lemma exp_taylor_upper:
  assumes "0 \<le> x" and "x ^ 12 / 479001600 < 1"
  shows "exp x \<le> exp_taylor x / (1 - x ^ 12 / 479001600)"
proof -
  obtain t where t: "\<bar>t\<bar> \<le> \<bar>x\<bar>"
    and eq: "exp x = exp_taylor x + exp t * (x ^ 12 / 479001600)"
    using exp_taylor_remainder [of x] by blast
  from t assms(1) have "exp t \<le> exp x"
    by simp
  moreover have "0 \<le> x ^ 12 / 479001600"
    using assms(1) by simp
  ultimately have "exp t * (x ^ 12 / 479001600) \<le> exp x * (x ^ 12 / 479001600)"
    by (rule mult_right_mono)
  with eq have "exp x * (1 - x ^ 12 / 479001600) \<le> exp_taylor x"
    by (simp add: algebra_simps)
  with assms(2) show ?thesis
    by (simp add: pos_le_divide_eq)
qed

lemma pi_gt_3141592: "3.141592 < pi"
proof -
  let ?a = "3.141592 / 6 :: real"
  have "sin ?a \<le> sin_taylor ?a + ?a ^ 11 / 39916800"
    by (rule sin_taylor_bounds) simp
  also have "\<dots> < 1 / 2"
    by (simp add: sin_taylor_def power_divide)
  finally have "sin ?a < sin (pi / 6)"
    by (simp add: sin_30)
  moreover have "- (pi / 2) \<le> ?a" "?a \<le> pi / 2" "- (pi / 2) \<le> pi / 6" "pi / 6 \<le> pi / 2"
    using pi_ge_two by simp_all
  ultimately have "?a < pi / 6"
    by (simp add: sin_mono_less_eq)
  then show ?thesis by simp
qed

lemma pi_lt_3141593: "pi < 3.141593"
proof -
  let ?b = "3.141593 / 6 :: real"
  have "1 / 2 < sin_taylor ?b - ?b ^ 11 / 39916800"
    by (simp add: sin_taylor_def power_divide)
  also have "\<dots> \<le> sin ?b"
    by (rule sin_taylor_bounds) simp
  finally have "sin (pi / 6) < sin ?b"
    by (simp add: sin_30)
  moreover have "- (pi / 2) \<le> ?b" "?b \<le> pi / 2" "- (pi / 2) \<le> pi / 6" "pi / 6 \<le> pi / 2"
    using pi_ge_two by simp_all
  ultimately have "pi / 6 < ?b"
    by (simp add: sin_mono_less_eq)
  then show ?thesis by simp
qed


lemma tan_lower:
  assumes "0 \<le> lo" and "lo \<le> \<theta>" and "\<theta> \<le> 1" and "0 \<le> c"
    and "c * (cos_taylor lo + lo ^ 10 / 3628800) < sin_taylor lo - lo ^ 11 / 39916800"
  shows "c < tan \<theta>"
proof -
  have half: "1 < pi / 2"
    using pi_gt_3141592 by simp
  have "0 < cos \<theta>"
    using assms(1-3) half by (intro cos_gt_zero_pi) linarith+
  have "cos \<theta> \<le> cos lo"
    using assms(1-3) half by (subst cos_mono_le_eq) linarith+
  also have "\<dots> \<le> cos_taylor lo + lo ^ 10 / 3628800"
    using assms(1) by (rule cos_taylor_bounds)
  finally have "c * cos \<theta> \<le> c * (cos_taylor lo + lo ^ 10 / 3628800)"
    using assms(4) by (rule mult_left_mono)
  also note assms(5)
  also have "sin_taylor lo - lo ^ 11 / 39916800 \<le> sin lo"
    using assms(1) by (rule sin_taylor_bounds)
  also have "sin lo \<le> sin \<theta>"
    using assms(1-3) half by (subst sin_mono_le_eq) linarith+
  finally have "c * cos \<theta> < sin \<theta>" .
  with \<open>0 < cos \<theta>\<close> show ?thesis
    by (simp add: tan_def pos_less_divide_eq)
qed

lemma tan_upper:
  assumes "0 \<le> \<theta>" and "\<theta> \<le> hi" and "hi \<le> 1" and "0 \<le> c"
    and "sin_taylor hi + hi ^ 11 / 39916800 < c * (cos_taylor hi - hi ^ 10 / 3628800)"
  shows "tan \<theta> < c"
proof -
  have half: "1 < pi / 2"
    using pi_gt_3141592 by simp
  have hi: "0 \<le> hi"
    using assms(1,2) by linarith
  have "0 < cos \<theta>"
    using assms(1-3) half by (intro cos_gt_zero_pi) linarith+
  have "sin \<theta> \<le> sin hi"
    using assms(1-3) half by (subst sin_mono_le_eq) linarith+
  also have "\<dots> \<le> sin_taylor hi + hi ^ 11 / 39916800"
    using hi by (rule sin_taylor_bounds)
  also note assms(5)
  also have "c * (cos_taylor hi - hi ^ 10 / 3628800) \<le> c * cos hi"
    using cos_taylor_bounds(1) [OF hi] assms(4) by (rule mult_left_mono)
  also have "\<dots> \<le> c * cos \<theta>"
  proof (rule mult_left_mono)
    show "cos hi \<le> cos \<theta>"
      using assms(1-3) half by (subst cos_mono_le_eq) linarith+
  qed (rule assms(4))
  finally have "sin \<theta> < c * cos \<theta>" .
  with \<open>0 < cos \<theta>\<close> show ?thesis
    by (simp add: tan_def pos_divide_less_eq)
qed

lemma sinh_upper:
  assumes "0 \<le> x" and "x \<le> hi" and "hi ^ 12 / 479001600 < 1"
    and "exp_taylor hi / (1 - hi ^ 12 / 479001600) \<le> U"
    and "(U - 1 / U) / 2 < c"
  shows "sinh x < c"
proof -
  have hi: "0 \<le> hi"
    using assms(1,2) by linarith
  have "exp hi \<le> U"
    using exp_taylor_upper [OF hi assms(3)] assms(4) by linarith
  moreover have "0 < exp hi"
    by simp
  ultimately have "0 < U"
    by linarith
  with \<open>exp hi \<le> U\<close> have "1 / U \<le> 1 / exp hi"
    by (intro divide_left_mono) simp_all
  with \<open>exp hi \<le> U\<close> have "exp hi - 1 / exp hi \<le> U - 1 / U"
    by (intro diff_mono)
  then have "(exp hi - 1 / exp hi) / 2 \<le> (U - 1 / U) / 2"
    by (rule divide_right_mono) simp
  moreover have "sinh x \<le> sinh hi"
    using assms(2) by simp
  moreover have "sinh hi = (exp hi - 1 / exp hi) / 2"
    by (simp add: sinh_field_def exp_minus inverse_eq_divide)
  ultimately show ?thesis
    using assms(5) by linarith
qed

lemma sinh_lower:
  assumes "lo \<le> x" and "0 \<le> lo" and "0 < L" and "L \<le> exp_taylor lo"
    and "c < (L - 1 / L) / 2"
  shows "c < sinh x"
proof -
  have "L \<le> exp lo"
    using exp_taylor_lower [OF assms(2)] assms(4) by linarith
  with assms(3) have "1 / exp lo \<le> 1 / L"
    by (intro divide_left_mono) simp_all
  with \<open>L \<le> exp lo\<close> have "L - 1 / L \<le> exp lo - 1 / exp lo"
    by (intro diff_mono)
  then have "(L - 1 / L) / 2 \<le> (exp lo - 1 / exp lo) / 2"
    by (rule divide_right_mono) simp
  moreover have "sinh lo \<le> sinh x"
    using assms(1) by simp
  moreover have "sinh lo = (exp lo - 1 / exp lo) / 2"
    by (simp add: sinh_field_def exp_minus inverse_eq_divide)
  ultimately show ?thesis
    using assms(5) by linarith
qed



section \<open>Properties of the resolver\<close>

lemma js_increment_exact: "- (2 ^ 53) \<le> v \<Longrightarrow> v < 2 ^ 53 \<Longrightarrow> js_increment v = v + 1"
  by (simp add: js_increment_def)

lemma js_increment_stalls: "js_increment (2 ^ 53) = 2 ^ 53"
  by (simp add: js_increment_def)

text \<open>In the exact range the inner loop appends the column from \<open>y\<close> to \<open>hiY\<close>.\<close>

lemma tiles_column_in_range:
  "- (2 ^ 53) \<le> y \<Longrightarrow> hiY < 2 ^ 53 \<Longrightarrow>
   tiles_column x y hiY zoom acc =
     Some (acc @ map (\<lambda>y. \<lparr>tile_x = x, tile_y = y, tile_z = zoom\<rparr>) [y..hiY])"
proof (induction "nat (hiY + 1 - y)" arbitrary: y acc)
  case 0
  then have "\<not> y \<le> hiY"
    by simp
  then show ?case
    by (subst tiles_column.simps) simp
next
  case (Suc n)
  then have le: "y \<le> hiY"
    by linarith
  with Suc.prems have inc: "js_increment y = y + 1"
    by (intro js_increment_exact) linarith+
  have "tiles_column x (y + 1) hiY zoom (acc @ [\<lparr>tile_x = x, tile_y = y, tile_z = zoom\<rparr>]) =
      Some ((acc @ [\<lparr>tile_x = x, tile_y = y, tile_z = zoom\<rparr>]) @
        map (\<lambda>y. \<lparr>tile_x = x, tile_y = y, tile_z = zoom\<rparr>) [y + 1..hiY])"
    using Suc by (intro Suc.hyps(1)) linarith+
  with le inc show ?case
    by (subst tiles_column.simps) (simp add: upto_rec1 [of y hiY])
qed




lemma tiles_loop_in_range:
  "- (2 ^ 53) \<le> x \<Longrightarrow> hiX < 2 ^ 53 \<Longrightarrow> - (2 ^ 53) \<le> loY \<Longrightarrow> hiY < 2 ^ 53 \<Longrightarrow>
   tiles_loop x hiX loY hiY zoom acc = Some (acc @ rectangle_tiles x hiX loY hiY zoom)"
proof (induction "nat (hiX + 1 - x)" arbitrary: x acc)
  case 0
  then have "\<not> x \<le> hiX"
    by simp
  then show ?case
    by (subst tiles_loop.simps) (simp add: rectangle_tiles_def)
next
  case (Suc n)
  then have le: "x \<le> hiX"
    by linarith
  with Suc.prems have inc: "js_increment x = x + 1"
    by (intro js_increment_exact) linarith+
  have column: "tiles_column x loY hiY zoom acc =
      Some (acc @ map (\<lambda>y. \<lparr>tile_x = x, tile_y = y, tile_z = zoom\<rparr>) [loY..hiY])"
    using Suc.prems by (intro tiles_column_in_range)
  have rest: "tiles_loop (x + 1) hiX loY hiY zoom
        (acc @ map (\<lambda>y. \<lparr>tile_x = x, tile_y = y, tile_z = zoom\<rparr>) [loY..hiY]) =
      Some ((acc @ map (\<lambda>y. \<lparr>tile_x = x, tile_y = y, tile_z = zoom\<rparr>) [loY..hiY]) @
        rectangle_tiles (x + 1) hiX loY hiY zoom)"
    using Suc by (intro Suc.hyps(1)) linarith+
  from le inc column rest show ?case
    by (subst tiles_loop.simps) (simp add: rectangle_tiles_def upto_rec1 [of x hiX])
qed





text \<open>
  The grid of two corner tiles whose indices are in the exact range: the loops end
  and the tiles are the rectangle between the corners.
\<close>

lemma getTilesForBounds_corners:
  assumes "latLngToTile (south b) (west b) zoom = sw"
    and "latLngToTile (north b) (east b) zoom = ne"
    and "- (2 ^ 53) \<le> min (tile_x sw) (tile_x ne)" and "max (tile_x sw) (tile_x ne) < 2 ^ 53"
    and "- (2 ^ 53) \<le> min (tile_y sw) (tile_y ne)" and "max (tile_y sw) (tile_y ne) < 2 ^ 53"
  shows "getTilesForBounds b zoom =
     Some \<lparr>tiles = rectangle_tiles (min (tile_x sw) (tile_x ne)) (max (tile_x sw) (tile_x ne))
                     (min (tile_y sw) (tile_y ne)) (max (tile_y sw) (tile_y ne)) zoom,
           gridWidth = max (tile_x sw) (tile_x ne) - min (tile_x sw) (tile_x ne) + 1,
           gridHeight = max (tile_y sw) (tile_y ne) - min (tile_y sw) (tile_y ne) + 1,
           minX = min (tile_x sw) (tile_x ne), minY = min (tile_y sw) (tile_y ne),
           maxX = max (tile_x sw) (tile_x ne), maxY = max (tile_y sw) (tile_y ne)\<rparr>"
  unfolding getTilesForBounds_def Let_def assms(1,2)
  by (simp add: tiles_loop_in_range [OF assms(3-6)])



lemma example_grid_resolved: "getTilesForBounds example_bounds 14 = Some example_grid"
proof -
  have sw: "latLngToTile (south example_bounds) (west example_bounds) 14 =
      \<lparr>tile_x = 8647, tile_y = 8192, tile_z = 14\<rparr>"
    and ne: "latLngToTile (north example_bounds) (east example_bounds) 14 =
      \<lparr>tile_x = 8648, tile_y = 8192, tile_z = 14\<rparr>"
    by (simp_all add: latLngToTile_def example_bounds_def)
  show ?thesis
    by (subst getTilesForBounds_corners [OF sw ne])
       (simp_all add: example_grid_def rectangle_tiles_def)
qed

text \<open>
  Claim C2. Exchanging the south and north values of the bounds, or the west and east
  values, or both, leaves the result of the resolver unchanged: the same \<open>minX\<close>,
  \<open>minY\<close>, \<open>maxX\<close>, \<open>maxY\<close>, \<open>gridWidth\<close>, \<open>gridHeight\<close> and the same
  tiles in the same order.
\<close>

theorem resolver_order_independent:
  "getTilesForBounds (swap_south_north b) zoom = getTilesForBounds b zoom \<and>
   getTilesForBounds (swap_west_east b) zoom = getTilesForBounds b zoom \<and>
   getTilesForBounds (swap_south_north (swap_west_east b)) zoom = getTilesForBounds b zoom"
  by (simp add: getTilesForBounds_def latLngToTile_def Let_def swap_south_north_def
      swap_west_east_def min.commute max.commute cong: option.case_cong)






text \<open>
  Claim C10. For a valid latitude, any longitude and zoom level and a positive tile
  size, the tile index is the componentwise floor of the global pixel position divided
  by the tile size, in exact real arithmetic.
\<close>

theorem tile_is_floor_of_global_pixel:
  assumes "valid_latitude lat" and "0 < tileSize"
  shows "tile_x (latLngToTile lat lng zoom) =
           \<lfloor>globalX (latLngToGlobalPixel lat lng zoom tileSize) / real_of_int tileSize\<rfloor> \<and>
         tile_y (latLngToTile lat lng zoom) =
           \<lfloor>globalY (latLngToGlobalPixel lat lng zoom tileSize) / real_of_int tileSize\<rfloor>"
  using assms(2) by (simp add: latLngToTile_def latLngToGlobalPixel_def Let_def)

theorem tile_is_floor_of_global_pixel_witness:
  "valid_latitude 0 \<and> (0::int) < 256 \<and>
   tile_x (latLngToTile 0 10 14) =
     \<lfloor>globalX (latLngToGlobalPixel 0 10 14 256) / real_of_int 256\<rfloor> \<and>
   tile_y (latLngToTile 0 10 14) =
     \<lfloor>globalY (latLngToGlobalPixel 0 10 14 256) / real_of_int 256\<rfloor>"
  using tile_is_floor_of_global_pixel [of 0 256 10 14] by (simp add: valid_latitude_def)

section \<open>Properties of the annotation projector\<close>

lemma example_annotation:
  "calculateYoloForComposite example_bounds example_grid 14 256 =
     \<lparr>x_center = Finite (893 / 2250), y_center = Finite 0,
      width = Finite (256 / 375), height = Finite 0,
      pixel = \<lparr>rect_x1 = 28, rect_y1 = 0, rect_x2 = 378, rect_y2 = 0\<rparr>\<rparr>"
  by (simp add: calculateYoloForComposite_def latLngToGlobalPixel_def Let_def js_div_def
      example_bounds_def example_grid_def js_round_def)

lemma in_unit_interval_clamp: "v \<noteq> NaN \<Longrightarrow> in_unit_interval (js_max 0 (js_min 1 v))"
  by (cases v) simp_all

lemma js_div_not_NaN: "d \<noteq> 0 \<Longrightarrow> js_div a d \<noteq> NaN"
  by (simp add: js_div_def)

text \<open>
  North is up: between valid latitudes the global pixel row decreases as the latitude
  grows, so the row of the north-east corner is the top edge of the box and the row
  of the south-west corner is its bottom edge.
\<close>

lemma mercator_monotone:
  assumes "valid_latitude s" and "valid_latitude n" and "s \<le> n" and "0 \<le> tileSize"
  shows "globalY (latLngToGlobalPixel n lng zoom tileSize) \<le>
         globalY (latLngToGlobalPixel s lng' zoom tileSize)"
proof -
  have "- 90 < s" and "n < 90"
    using assms(1,2) by (simp_all add: valid_latitude_def)
  then have "(- 90) * pi < s * pi" and "n * pi < 90 * pi"
    by (intro mult_strict_right_mono; simp)+
  then have "- (pi / 2) < s * pi / 180" and "n * pi / 180 < pi / 2"
    by simp_all
  moreover have "s * pi / 180 \<le> n * pi / 180"
    using assms(3) by simp
  ultimately have "tan (s * pi / 180) \<le> tan (n * pi / 180)"
    by (intro tan_mono_le)
  then have "arsinh (tan (s * pi / 180)) \<le> arsinh (tan (n * pi / 180))"
    by (auto simp: le_less)
  then have "arsinh (tan (s * pi / 180)) / pi \<le> arsinh (tan (n * pi / 180)) / pi"
    by (rule divide_right_mono) simp
  then have "(1 - arsinh (tan (n * pi / 180)) / pi) / 2 * 2 ^ zoom
      \<le> (1 - arsinh (tan (s * pi / 180)) / pi) / 2 * 2 ^ zoom"
    by simp
  then show ?thesis
    using assms(4) by (simp add: latLngToGlobalPixel_def Let_def mult_right_mono)
qed

text \<open>
  Claim C1. The projector subtracts the grid origin \<open>(minX * tileSize, minY * tileSize)\<close>
  from the global pixel positions of the south-west and north-east corners; the top
  edge \<open>y1\<close> comes from the north-east corner and the bottom edge \<open>y2\<close> from the
  south-west corner, while \<open>x1\<close> comes from the south-west and \<open>x2\<close> from the
  north-east corner. It returns the width \<open>|x2 - x1|\<close> and the height \<open>|y2 - y1|\<close>,
  the centre \<open>((x1 + x2) / 2, (y1 + y2) / 2)\<close>, each divided by the width or the height
  of the composite and then clamped to the unit interval, and the pixel rectangle,
  rounded to integers and not clamped.
\<close>

theorem projector_formula:
  "let sw = latLngToGlobalPixel (south b) (west b) zoom tileSize;
       ne = latLngToGlobalPixel (north b) (east b) zoom tileSize;
       x1 = globalX sw - real_of_int (minX g * tileSize);
       x2 = globalX ne - real_of_int (minX g * tileSize);
       y1 = globalY ne - real_of_int (minY g * tileSize);
       y2 = globalY sw - real_of_int (minY g * tileSize);
       W = real_of_int (gridWidth g * tileSize);
       H = real_of_int (gridHeight g * tileSize);
       a = calculateYoloForComposite b g zoom tileSize
   in width a = clamp_unit (js_div \<bar>x2 - x1\<bar> W) \<and>
      height a = clamp_unit (js_div \<bar>y2 - y1\<bar> H) \<and>
      x_center a = clamp_unit (js_div ((x1 + x2) / 2) W) \<and>
      y_center a = clamp_unit (js_div ((y1 + y2) / 2) H) \<and>
      pixel a = \<lparr>rect_x1 = js_round x1, rect_y1 = js_round y1,
                 rect_x2 = js_round x2, rect_y2 = js_round y2\<rparr>"
  by (simp add: calculateYoloForComposite_def Let_def clamp_unit_def mult.commute)

text \<open>
  Claim C6, as stated, fails: with a tile size of zero the composite has width zero,
  every pixel position is zero, and the normalised centre is \<open>0 / 0\<close>, which is
  \<open>NaN\<close> and stays \<open>NaN\<close> under \<open>Math.min\<close> and \<open>Math.max\<close>.
\<close>

theorem annotation_nan_at_zero_tile_size:
  "x_center (calculateYoloForComposite example_bounds example_grid 14 0) = NaN \<and>
   \<not> in_unit_interval (x_center (calculateYoloForComposite example_bounds example_grid 14 0))"
  by (simp add: calculateYoloForComposite_def latLngToGlobalPixel_def Let_def js_div_def)

text \<open>
  Claim C6, amended. For any bounds, tile grid, zoom level and tile size such that the
  composite's width \<open>gridWidth * tileSize\<close> and height \<open>gridHeight * tileSize\<close> are not
  zero, the fields \<open>x_center\<close>, \<open>y_center\<close>, \<open>width\<close> and \<open>height\<close> of the annotation are
  within the closed unit interval, also for a box that straddles a tile edge.
\<close>

theorem annotation_in_unit_interval:
  assumes "gridWidth g * tileSize \<noteq> 0" and "gridHeight g * tileSize \<noteq> 0"
  shows "in_unit_interval (x_center (calculateYoloForComposite b g zoom tileSize)) \<and>
         in_unit_interval (y_center (calculateYoloForComposite b g zoom tileSize)) \<and>
         in_unit_interval (width (calculateYoloForComposite b g zoom tileSize)) \<and>
         in_unit_interval (height (calculateYoloForComposite b g zoom tileSize))"
proof -
  from assms have "real_of_int (gridWidth g * tileSize) \<noteq> 0"
    and "real_of_int (gridHeight g * tileSize) \<noteq> 0"
    by (simp_all only: of_int_eq_0_iff not_False_eq_True)
  then show ?thesis
    unfolding calculateYoloForComposite_def Let_def
    by (simp add: in_unit_interval_clamp js_div_not_NaN del: of_int_mult)
qed

theorem annotation_in_unit_interval_witness:
  "gridWidth example_grid * 256 \<noteq> 0 \<and> gridHeight example_grid * 256 \<noteq> 0 \<and>
   in_unit_interval (x_center (calculateYoloForComposite example_bounds example_grid 14 256)) \<and>
   in_unit_interval (y_center (calculateYoloForComposite example_bounds example_grid 14 256)) \<and>
   in_unit_interval (width (calculateYoloForComposite example_bounds example_grid 14 256)) \<and>
   in_unit_interval (height (calculateYoloForComposite example_bounds example_grid 14 256))"
proof -
  have w: "gridWidth example_grid * 256 \<noteq> 0" and h: "gridHeight example_grid * 256 \<noteq> 0"
    by (simp_all add: example_grid_def)
  from w h annotation_in_unit_interval [OF w h, of example_bounds 14] show ?thesis
    by simp
qed

section \<open>Properties of the tile fetcher and the compositor\<close>

lemma length_tileBuffers: "length (tileBuffers env ts tileUrl) = length ts"
  by (simp add: tileBuffers_def)

lemma map_fst_tileBuffers: "map fst (tileBuffers env ts tileUrl) = ts"
  by (simp add: tileBuffers_def comp_def case_prod_unfold)

lemma nth_tileBuffers:
  "k < length ts \<Longrightarrow>
   tileBuffers env ts tileUrl ! k =
     (ts ! k, downloadTile env k (tile_z (ts ! k)) (tile_x (ts ! k)) (tile_y (ts ! k)) tileUrl)"
  by (simp add: tileBuffers_def nth_enumerate_eq)

lemma example_tile_url:
  "tile_url offline 0 14 8647 5556 DEFAULT_TILE_URL =
     ''https://tiles.maps.eox.at/wmts/1.0.0/s2cloudless_3857/default/GoogleMapsCompatible/14/5556/8647.jpg''"
  by (simp add: tile_url_def DEFAULT_TILE_URL_def show_int_def show_nat.simps)

lemma example_tile_url_subdomain:
  "tile_url (offline\<lparr>random := (\<lambda>k. 0.5)\<rparr>) 0 3 (- 1) 2
     ''https://{s}.tile.example.org/{z}/{x}/{y}.png'' =
   ''https://b.tile.example.org/3/-1/2.png''"
  by (simp add: tile_url_def subdomain_def show_int_def show_nat.simps)

lemma offline_tile: "downloadTile offline k z x y tileUrl = placeholder_tile"
  by (simp add: downloadTile_def download_attempt_def offline_def)

text \<open>
  Claim C4. The tile fetcher returns a raster in every case. When the request fails,
  by a network error or by a response whose status is not a success, the raster is the
  placeholder: a blank image of 256 by 256 pixels, the tile size, in the colour
  (50, 50, 60). The download of a list of tiles yields one raster for each tile, in
  the order of the tiles.
\<close>

theorem tile_fetcher_never_fails:
  "(fetch_failed env (tile_url env k z x y tileUrl) \<longrightarrow>
      downloadTile env k z x y tileUrl = placeholder_tile) \<and>
   placeholder_tile =
     SolidJpeg \<lparr>create_width = 256, create_height = 256, channels = 3,
                background = (50, 50, 60)\<rparr> \<and>
   length (tileBuffers env ts tileUrl) = length ts \<and>
   map fst (tileBuffers env ts tileUrl) = ts"
  by (auto simp: fetch_failed_def downloadTile_def download_attempt_def placeholder_tile_def
      length_tileBuffers map_fst_tileBuffers split: fetch_outcome.splits)

theorem tile_fetcher_never_fails_witness:
  "fetch_failed offline (tile_url offline 0 14 8647 8192 DEFAULT_TILE_URL) \<and>
   downloadTile offline 0 14 8647 8192 DEFAULT_TILE_URL = placeholder_tile \<and>
   length (tileBuffers offline (tiles example_grid) DEFAULT_TILE_URL) = 2"
proof -
  have failed: "fetch_failed offline (tile_url offline 0 14 8647 8192 DEFAULT_TILE_URL)"
    by (simp add: fetch_failed_def offline_def)
  from tile_fetcher_never_fails [of offline 0 14 8647 8192 DEFAULT_TILE_URL "tiles example_grid"]
    failed show ?thesis
    by (simp add: example_grid_def)
qed

text \<open>
  Claim C5. Whenever the compositor produces an image, its width is
  \<open>gridWidth * tileSize\<close> and its height is \<open>gridHeight * tileSize\<close>, as are the width
  and height of the blank canvas, and the canvas carries one layer for each tile, the
  raster of tile \<open>(x, y)\<close> at the offset \<open>((x - minX) * tileSize, (y - minY) * tileSize)\<close>.
\<close>

theorem composite_size_and_placement:
  assumes "createCompositeImage env g tileSize tileUrl = Inr c"
  shows "composite_width c = gridWidth g * tileSize \<and>
         composite_height c = gridHeight g * tileSize \<and>
         create_width (canvas (buffer c)) = gridWidth g * tileSize \<and>
         create_height (canvas (buffer c)) = gridHeight g * tileSize \<and>
         length (layers (buffer c)) = length (tiles g) \<and>
         (\<forall>k < length (tiles g).
            layer_left (layers (buffer c) ! k) = (tile_x (tiles g ! k) - minX g) * tileSize \<and>
            layer_top (layers (buffer c) ! k) = (tile_y (tiles g ! k) - minY g) * tileSize \<and>
            layer_input (layers (buffer c) ! k) =
              downloadTile env k (tile_z (tiles g ! k)) (tile_x (tiles g ! k))
                (tile_y (tiles g ! k)) tileUrl)"
  using assms
  by (auto simp: createCompositeImage_def Let_def compositeInputs_def length_tileBuffers
      nth_tileBuffers split: option.splits)

theorem composite_size_and_placement_witness:
  "(case createCompositeImage offline example_grid 256 DEFAULT_TILE_URL of
      Inl err \<Rightarrow> False
    | Inr c \<Rightarrow>
        composite_width c = 512 \<and> composite_height c = 256 \<and>
        length (layers (buffer c)) = 2 \<and>
        layer_left (layers (buffer c) ! 1) = 256 \<and> layer_top (layers (buffer c) ! 1) = 0 \<and>
        layer_input (layers (buffer c) ! 1) = placeholder_tile)"
proof -
  have "\<exists>c. createCompositeImage offline example_grid 256 DEFAULT_TILE_URL = Inr c"
    by (simp add: createCompositeImage_def offline_def Let_def)
  then obtain c where c: "createCompositeImage offline example_grid 256 DEFAULT_TILE_URL = Inr c"
    by blast
  have "(1::nat) < length (tiles example_grid)"
    by (simp add: example_grid_def)
  with composite_size_and_placement [OF c] show ?thesis
    unfolding c by (auto simp: example_grid_def offline_tile)
qed

section \<open>Properties of the box creation\<close>

lemma broken_sharp_fails:
  "createCompositeImage broken_sharp g tileSize tileUrl = Inl (Error ''unsupported image format'')"
  by (simp add: createCompositeImage_def broken_sharp_def Let_def)

text \<open>
  Claim C8. If the creation of the composite image fails during a request that
  carries a label id, a label name and bounds, the request still succeeds: the reply
  is the new box, which is stored, its image and image size are null, and its
  annotation is the one the projector computes from the bounds and the tile grid.
\<close>

theorem composite_failure_keeps_annotation:
  assumes "req_labelId req = Some labelId" and "labelId \<noteq> 0"
    and "req_labelName req = Some labelName" and "labelName \<noteq> []"
    and "req_bounds req = Some b"
    and "getTilesForBounds b (zoomLevel (req_zoom req)) = Some g"
    and "createCompositeImage env g 256 (useTileUrl (req_tileUrl req)) = Inl err"
  shows "\<exists>newBox.
           post_boxes env st req =
             Some (Created newBox, st\<lparr>boxes := boxes st @ [newBox]\<rparr>) \<and>
           box_image newBox = None \<and>
           box_imageSize newBox = None \<and>
           box_yolo newBox = calculateYoloForComposite b g (zoomLevel (req_zoom req)) 256"
  using assms by (simp add: post_boxes_def imageInfo_def Let_def)

theorem composite_failure_keeps_annotation_witness:
  "getTilesForBounds example_bounds 14 = Some example_grid \<and>
   createCompositeImage broken_sharp example_grid 256 DEFAULT_TILE_URL =
     Inl (Error ''unsupported image format'') \<and>
   (\<exists>newBox.
      post_boxes broken_sharp empty_state (example_request (ZoomNumber 14)) =
        Some (Created newBox, empty_state\<lparr>boxes := [newBox]\<rparr>) \<and>
      box_image newBox = None \<and>
      box_imageSize newBox = None \<and>
      box_yolo newBox = calculateYoloForComposite example_bounds example_grid 14 256)"
proof -
  have grid:
    "getTilesForBounds example_bounds (zoomLevel (req_zoom (example_request (ZoomNumber 14)))) =
       Some example_grid"
    by (simp add: example_request_def example_grid_resolved)
  have failure:
    "createCompositeImage broken_sharp example_grid 256
       (useTileUrl (req_tileUrl (example_request (ZoomNumber 14)))) =
     Inl (Error ''unsupported image format'')"
    by (rule broken_sharp_fails)
  have "\<exists>newBox.
      post_boxes broken_sharp empty_state (example_request (ZoomNumber 14)) =
        Some (Created newBox, empty_state\<lparr>boxes := boxes empty_state @ [newBox]\<rparr>) \<and>
      box_image newBox = None \<and>
      box_imageSize newBox = None \<and>
      box_yolo newBox =
        calculateYoloForComposite example_bounds example_grid
          (zoomLevel (req_zoom (example_request (ZoomNumber 14)))) 256"
    by (rule composite_failure_keeps_annotation [OF _ _ _ _ _ grid failure, of 1 "''field''"])
       (simp_all add: example_request_def)
  then show ?thesis
    by (simp add: broken_sharp_fails example_request_def example_grid_resolved empty_state_def)
qed

text \<open>
  Claim C9. When the zoom field of an accepted request is absent, null or zero, the
  tile grid is resolved and the annotation is projected at zoom level 14, and 14 is
  the zoom level stored with the box: a zoom of zero sent by the caller is replaced
  by the default. The request is answered exactly when the resolver returns a grid
  for zoom level 14.
\<close>

theorem default_zoom:
  assumes "req_labelId req = Some labelId" and "labelId \<noteq> 0"
    and "req_labelName req = Some labelName" and "labelName \<noteq> []"
    and "req_bounds req = Some b"
    and "req_zoom req = ZoomAbsent \<or> req_zoom req = ZoomNull \<or> req_zoom req = ZoomNumber 0"
  shows "case getTilesForBounds b 14 of
           None \<Rightarrow> post_boxes env st req = None
         | Some g \<Rightarrow>
             (\<exists>newBox st'.
                post_boxes env st req = Some (Created newBox, st') \<and>
                box_zoom newBox = 14 \<and>
                box_tiles newBox = tiles g \<and>
                box_tileGrid newBox =
                  \<lparr>summary_width = gridWidth g,
                   summary_height = gridHeight g,
                   summary_minX = minX g,
                   summary_minY = minY g\<rparr> \<and>
                box_yolo newBox = calculateYoloForComposite b g 14 256)"
  using assms by (auto simp: post_boxes_def Let_def split: option.splits)

theorem default_zoom_witness:
  "req_zoom (example_request (ZoomNumber 0)) = ZoomNumber 0 \<and>
   getTilesForBounds example_bounds 14 = Some example_grid \<and>
   (\<exists>newBox st'.
      post_boxes offline empty_state (example_request (ZoomNumber 0)) =
        Some (Created newBox, st') \<and>
      box_zoom newBox = 14 \<and>
      box_tiles newBox = tiles example_grid \<and>
      box_yolo newBox = calculateYoloForComposite example_bounds example_grid 14 256)"
proof -
  have zero: "req_zoom (example_request (ZoomNumber 0)) = ZoomAbsent \<or>
      req_zoom (example_request (ZoomNumber 0)) = ZoomNull \<or>
      req_zoom (example_request (ZoomNumber 0)) = ZoomNumber 0"
    by (simp add: example_request_def)
  have "case getTilesForBounds example_bounds 14 of
      None \<Rightarrow> post_boxes offline empty_state (example_request (ZoomNumber 0)) = None
    | Some g \<Rightarrow>
        (\<exists>newBox st'.
           post_boxes offline empty_state (example_request (ZoomNumber 0)) =
             Some (Created newBox, st') \<and>
           box_zoom newBox = 14 \<and>
           box_tiles newBox = tiles g \<and>
           box_tileGrid newBox =
             \<lparr>summary_width = gridWidth g,
              summary_height = gridHeight g,
              summary_minX = minX g,
              summary_minY = minY g\<rparr> \<and>
           box_yolo newBox = calculateYoloForComposite example_bounds g 14 256)"
    by (rule default_zoom [OF _ _ _ _ _ zero, of 1 "''field''"])
       (simp_all add: example_request_def)
  then show ?thesis
    by (auto simp: example_request_def example_grid_resolved)
qed

section \<open>The worked example\<close>

lemma floor_from_sinh:
  assumes "sinh (real_of_int (8191 - k) * pi / 8192) < t"
    and "t \<le> sinh (real_of_int (8192 - k) * pi / 8192)"
  shows "\<lfloor>(1 - arsinh t / pi) / 2 * 2 ^ 14\<rfloor> = k"
proof -
  have "arsinh (sinh (real_of_int (8191 - k) * pi / 8192)) < arsinh t"
    using assms(1) by (simp only: arsinh_less_iff_real)
  then have lower: "real_of_int (8191 - k) * pi / 8192 < arsinh t"
    by (simp only: arsinh_sinh_real)
  have "\<not> arsinh (sinh (real_of_int (8192 - k) * pi / 8192)) < arsinh t"
    using assms(2) by (simp only: arsinh_less_iff_real not_less)
  then have upper: "arsinh t \<le> real_of_int (8192 - k) * pi / 8192"
    by (simp only: arsinh_sinh_real not_less)
  have pos: "0 < pi"
    by simp
  from lower pos have "real_of_int (8191 - k) / 8192 < arsinh t / pi"
    by (simp add: pos_less_divide_eq mult.commute)
  moreover from upper pos have "arsinh t / pi \<le> real_of_int (8192 - k) / 8192"
    by (simp add: pos_divide_le_eq mult.commute)
  ultimately have "real_of_int k \<le> (1 - arsinh t / pi) / 2 * 2 ^ 14"
    and "(1 - arsinh t / pi) / 2 * 2 ^ 14 < real_of_int k + 1"
    by simp_all
  then show ?thesis
    by (simp add: floor_eq_iff)
qed

lemma tan_50:
  shows "1.1916 < tan (50 * pi / 180)" and "tan (50 * pi / 180) < 1.1919"
proof -
  have lo: "0.872664 \<le> 50 * pi / 180" and hi: "50 * pi / 180 \<le> 0.872665"
    using pi_gt_3141592 pi_lt_3141593 by simp_all
  show "1.1916 < tan (50 * pi / 180)"
    by (rule tan_lower [OF _ lo]) (use hi in \<open>simp_all add: sin_taylor_def cos_taylor_def power_divide\<close>)
  show "tan (50 * pi / 180) < 1.1919"
    by (rule tan_upper [OF _ hi]) (use lo in \<open>simp_all add: sin_taylor_def cos_taylor_def power_divide\<close>)
qed

lemma tan_5001:
  shows "1.19213 < tan (50.01 * pi / 180)" and "tan (50.01 * pi / 180) < 1.1924"
proof -
  have lo: "0.8728389 \<le> 50.01 * pi / 180" and hi: "50.01 * pi / 180 \<le> 0.8728393"
    using pi_gt_3141592 pi_lt_3141593 by simp_all
  show "1.19213 < tan (50.01 * pi / 180)"
    by (rule tan_lower [OF _ lo]) (use hi in \<open>simp_all add: sin_taylor_def cos_taylor_def power_divide\<close>)
  show "tan (50.01 * pi / 180) < 1.1924"
    by (rule tan_upper [OF _ hi]) (use lo in \<open>simp_all add: sin_taylor_def cos_taylor_def power_divide\<close>)
qed

lemma sinh_2635: "sinh (2635 * pi / 8192) < 1.1916"
proof -
  have hi: "2635 * pi / 8192 \<le> 1.010511"
    using pi_lt_3141593 by simp
  show ?thesis
    by (rule sinh_upper [OF _ hi, where U = "2.747005"])
       (simp_all add: exp_taylor_def power_divide)
qed

lemma sinh_2636:
  shows "1.1919 < sinh (2636 * pi / 8192)" and "sinh (2636 * pi / 8192) < 1.19213"
proof -
  have lo: "1.0108931 \<le> 2636 * pi / 8192" and hi: "2636 * pi / 8192 \<le> 1.0108936"
    using pi_gt_3141592 pi_lt_3141593 by simp_all
  show "1.1919 < sinh (2636 * pi / 8192)"
    by (rule sinh_lower [OF lo, where L = "2.74805"])
       (simp_all add: exp_taylor_def power_divide)
  show "sinh (2636 * pi / 8192) < 1.19213"
    by (rule sinh_upper [OF _ hi, where U = "2.748056"])
       (simp_all add: exp_taylor_def power_divide)
qed

lemma sinh_2637: "1.1924 < sinh (2637 * pi / 8192)"
proof -
  have lo: "1.011276 \<le> 2637 * pi / 8192"
    using pi_gt_3141592 by simp
  show ?thesis
    by (rule sinh_lower [OF lo, where L = "2.7491"])
       (simp_all add: exp_taylor_def power_divide)
qed

lemma tile_y_south: "\<lfloor>(1 - arsinh (tan (50 * pi / 180)) / pi) / 2 * 2 ^ 14\<rfloor> = 5556"
proof (rule floor_from_sinh)
  show "sinh (real_of_int (8191 - 5556) * pi / 8192) < tan (50 * pi / 180)"
    using sinh_2635 tan_50(1) by simp
  show "tan (50 * pi / 180) \<le> sinh (real_of_int (8192 - 5556) * pi / 8192)"
    using sinh_2636(1) tan_50(2) by simp
qed

lemma tile_y_north: "\<lfloor>(1 - arsinh (tan (50.01 * pi / 180)) / pi) / 2 * 2 ^ 14\<rfloor> = 5555"
proof (rule floor_from_sinh)
  show "sinh (real_of_int (8191 - 5555) * pi / 8192) < tan (50.01 * pi / 180)"
    using sinh_2636(2) tan_5001(1) by simp
  show "tan (50.01 * pi / 180) \<le> sinh (real_of_int (8192 - 5555) * pi / 8192)"
    using sinh_2637 tan_5001(2) by simp
qed


subsection \<open>The tiles of the worked example\<close>

lemma sw_tile: "latLngToTile 50 10 14 = \<lparr>tile_x = 8647, tile_y = 5556, tile_z = 14\<rparr>"
proof -
  have "\<lfloor>((10::real) + 180) / 360 * 2 ^ 14\<rfloor> = 8647"
    by simp
  then show ?thesis
    unfolding latLngToTile_def Let_def by (simp only: tile_y_south)
qed

lemma ne_tile: "latLngToTile 50.01 10.01 14 = \<lparr>tile_x = 8647, tile_y = 5555, tile_z = 14\<rparr>"
proof -
  have "\<lfloor>((10.01::real) + 180) / 360 * 2 ^ 14\<rfloor> = 8647"
    by simp
  then show ?thesis
    unfolding latLngToTile_def Let_def by (simp only: tile_y_north)
qed

lemma worked_example_grid:
  "getTilesForBounds worked_example 14 =
     Some \<lparr>tiles = [\<lparr>tile_x = 8647, tile_y = 5555, tile_z = 14\<rparr>,
                    \<lparr>tile_x = 8647, tile_y = 5556, tile_z = 14\<rparr>],
           gridWidth = 1, gridHeight = 2,
           minX = 8647, minY = 5555, maxX = 8647, maxY = 5556\<rparr>"
proof -
  have sw: "latLngToTile (south worked_example) (west worked_example) 14 =
      \<lparr>tile_x = 8647, tile_y = 5556, tile_z = 14\<rparr>"
    and ne: "latLngToTile (north worked_example) (east worked_example) 14 =
      \<lparr>tile_x = 8647, tile_y = 5555, tile_z = 14\<rparr>"
    unfolding worked_example_def bounds.select_convs by (rule sw_tile, rule ne_tile)
  show ?thesis
    by (subst getTilesForBounds_corners [OF sw ne]) (simp_all add: rectangle_tiles_def)
qed

text \<open>
  Claim C7, as stated, fails: the two corners of the worked example resolve to
  different tiles, and the resolved grid is neither two tiles wide and one tile high
  nor two by two.
\<close>

theorem worked_example_not_as_stated:
  "\<not> (latLngToTile (south worked_example) (west worked_example) 14 =
         latLngToTile (north worked_example) (east worked_example) 14 \<and>
       map_option gridWidth (getTilesForBounds worked_example 14) = Some 1 \<and>
       map_option gridHeight (getTilesForBounds worked_example 14) = Some 1 \<and>
       (case getTilesForBounds worked_example 14 of
          None \<Rightarrow> False
        | Some g \<Rightarrow>
            rect_inside (pixel (calculateYoloForComposite worked_example g 14 256)) 256) \<or>
       adjacent_tiles (latLngToTile (south worked_example) (west worked_example) 14)
         (latLngToTile (north worked_example) (east worked_example) 14) \<and>
       (map_option gridWidth (getTilesForBounds worked_example 14) = Some 2 \<and>
        map_option gridHeight (getTilesForBounds worked_example 14) = Some 1 \<or>
        map_option gridWidth (getTilesForBounds worked_example 14) = Some 2 \<and>
        map_option gridHeight (getTilesForBounds worked_example 14) = Some 2))"
  by (simp add: worked_example_grid)

text \<open>
  Claim C7, amended. At zoom level 14 the south-west corner of the worked example
  lies in the tile (8647, 5556) and the north-east corner in the tile (8647, 5555),
  which are adjacent, one above the other; the resolved grid is one tile wide and two
  tiles high and consists of these two tiles.
\<close>

theorem worked_example_tiles:
  "latLngToTile (south worked_example) (west worked_example) 14 =
     \<lparr>tile_x = 8647, tile_y = 5556, tile_z = 14\<rparr> \<and>
   latLngToTile (north worked_example) (east worked_example) 14 =
     \<lparr>tile_x = 8647, tile_y = 5555, tile_z = 14\<rparr> \<and>
   adjacent_tiles (latLngToTile (south worked_example) (west worked_example) 14)
     (latLngToTile (north worked_example) (east worked_example) 14) \<and>
   map_option gridWidth (getTilesForBounds worked_example 14) = Some 1 \<and>
   map_option gridHeight (getTilesForBounds worked_example 14) = Some 2 \<and>
   map_option tiles (getTilesForBounds worked_example 14) =
     Some [\<lparr>tile_x = 8647, tile_y = 5555, tile_z = 14\<rparr>,
           \<lparr>tile_x = 8647, tile_y = 5556, tile_z = 14\<rparr>]"
proof -
  have corners:
    "latLngToTile (south worked_example) (west worked_example) 14 = latLngToTile 50 10 14"
    "latLngToTile (north worked_example) (east worked_example) 14 = latLngToTile 50.01 10.01 14"
    unfolding worked_example_def bounds.select_convs by (rule refl)+
  show ?thesis
    unfolding corners sw_tile ne_tile worked_example_grid
    by (simp add: adjacent_tiles_def)
qed

end
